theory Spec2Isabelle
  imports Main "HOL-Library.Sublist"
begin

section \<open>Python strings\<close>

text \<open>
  A Python \<open>str\<close> is modelled as a \<open>string\<close>; a \<open>char\<close> stands for a code point
  below 256. On these code points the pattern \<open>\d\<close> matches the ASCII digits only, and
  \<open>str.isspace\<close> holds for the twelve characters listed in \<open>py_whitespace\<close>.
\<close>

definition py_whitespace :: "char list" where
  "py_whitespace =
     [CHR 0x09, CHR 0x0A, CHR 0x0B, CHR 0x0C, CHR 0x0D, CHR 0x1C, CHR 0x1D, CHR 0x1E,
      CHR 0x1F, CHR 0x20, CHR 0x85, CHR 0xA0]"

definition isspace :: "char \<Rightarrow> bool" where
  "isspace c = (c \<in> set py_whitespace)"

definition strip :: "string \<Rightarrow> string" where
  \<comment> \<open>\<open>s.strip()\<close>\<close>
  "strip s = rev (dropWhile isspace (rev (dropWhile isspace s)))"

fun split_sep :: "char \<Rightarrow> string \<Rightarrow> string list" where
  \<comment> \<open>\<open>s.split(sep)\<close> for a separator of one character: empty fields are kept\<close>
  "split_sep sep [] = [[]]"
| "split_sep sep (c # cs) =
     (if c = sep then [] # split_sep sep cs
      else (case split_sep sep cs of
              [] \<Rightarrow> [[c]]
            | w # ws \<Rightarrow> (c # w) # ws))"

function split_ws :: "string \<Rightarrow> string list" where
  \<comment> \<open>\<open>s.split()\<close>: the maximal runs of characters that are not whitespace\<close>
  "split_ws s =
     (case dropWhile isspace s of
        [] \<Rightarrow> []
      | c # cs \<Rightarrow> (c # takeWhile (\<lambda>x. \<not> isspace x) cs)
                  # split_ws (dropWhile (\<lambda>x. \<not> isspace x) cs))"
  by pat_completeness auto
termination
proof (relation "measure length", goal_cases)
  case 1
  show ?case by simp
next
  case (2 s c cs)
  have "length (dropWhile (\<lambda>x. \<not> isspace x) cs) \<le> length cs"
    by (rule length_dropWhile_le)
  moreover have "length (c # cs) \<le> length s"
    using length_dropWhile_le [of isspace s] 2 by simp
  ultimately show ?case by simp
qed

declare split_ws.simps [simp del]

definition split_first :: "char \<Rightarrow> string \<Rightarrow> string \<times> string" where
  \<comment> \<open>\<open>s.split(sep, 1)\<close> for a string that contains \<open>sep\<close>: the text before the first
      separator and the text after it\<close>
  "split_first sep s = (takeWhile (\<lambda>x. x \<noteq> sep) s, tl (dropWhile (\<lambda>x. x \<noteq> sep) s))"

definition remove_char :: "char \<Rightarrow> string \<Rightarrow> string" where
  \<comment> \<open>\<open>s.replace(c, "")\<close>\<close>
  "remove_char c s = filter (\<lambda>x. x \<noteq> c) s"

definition startswith :: "string \<Rightarrow> string \<Rightarrow> bool" where
  "startswith s p = (take (length p) s = p)"

definition endswith :: "string \<Rightarrow> string \<Rightarrow> bool" where
  "endswith s p = (length p \<le> length s \<and> drop (length s - length p) s = p)"

definition quoted :: "string \<Rightarrow> string" where
  \<comment> \<open>the value between two apostrophes, as the f-strings of the source print it\<close>
  "quoted s = CHR 0x27 # s @ [CHR 0x27]"

datatype error = IndexError | SyntaxError string

section \<open>Character classes of the regular expressions\<close>

definition is_digit :: "char \<Rightarrow> bool" where
  \<comment> \<open>\<open>\d\<close> and \<open>[0-9]\<close>\<close>
  "is_digit c = (c \<in> set ''0123456789'')"

definition is_letter :: "char \<Rightarrow> bool" where
  \<comment> \<open>\<open>[a-zA-Z_]\<close>\<close>
  "is_letter c = (c \<in> set ''abcdefghijklmnopqrstuvwxyzABCDEFGHIJKLMNOPQRSTUVWXYZ_'')"

definition is_word :: "char \<Rightarrow> bool" where
  \<comment> \<open>\<open>[a-zA-Z0-9_]\<close>\<close>
  "is_word c = (is_letter c \<or> is_digit c)"

definition is_op :: "char \<Rightarrow> bool" where
  \<comment> \<open>\<open>[+\-*/=]\<close>\<close>
  "is_op c = (c \<in> set ''+-*/='')"

definition is_skip :: "char \<Rightarrow> bool" where
  \<comment> \<open>\<open>[ \t\n]\<close>\<close>
  "is_skip c = (c \<in> set [CHR 0x20, CHR 0x09, CHR 0x0A])"

section \<open>Semantic analysis\<close>

function find_identifiers :: "string \<Rightarrow> string list" where
  \<comment> \<open>\<open>re.findall(r'[a-zA-Z_][a-zA-Z0-9_]*', s)\<close>\<close>
  "find_identifiers [] = []"
| "find_identifiers (c # cs) =
     (if is_letter c
      then (c # takeWhile is_word cs) # find_identifiers (dropWhile is_word cs)
      else find_identifiers cs)"
  by pat_completeness auto
termination
  by (relation "measure length") (auto simp: length_dropWhile_le less_Suc_eq_le)

declare find_identifiers.simps [simp del]

definition multiple_declaration :: "string \<Rightarrow> string" where
  "multiple_declaration var = ''Semantic Error: Multiple declaration of '' @ quoted var"

definition undeclared_variable :: "string \<Rightarrow> string" where
  "undeclared_variable var = ''Semantic Error: Undeclared variable '' @ quoted var"

fun check_rhs :: "string set \<Rightarrow> string list \<Rightarrow> string list \<Rightarrow> string list" where
  \<comment> \<open>the inner loop over the identifiers of the right-hand side\<close>
  "check_rhs declared [] errors = errors"
| "check_rhs declared (token # tokens) errors =
     (if token \<notin> declared
      then check_rhs declared tokens (errors @ [undeclared_variable token])
      else check_rhs declared tokens errors)"

fun semantic_lines :: "string list \<Rightarrow> string set \<Rightarrow> string list \<Rightarrow> error + string list" where
  \<comment> \<open>the loop over the lines, with the set \<open>declared\<close> and the list \<open>errors\<close>\<close>
  "semantic_lines [] declared errors = Inr errors"
| "semantic_lines (l # ls) declared errors =
     (let line = strip l in
      if startswith line ''int'' then
        (case split_ws line of
           _ # field # _ \<Rightarrow>
             (let var = remove_char CHR '';'' field in
              if var \<in> declared
              then semantic_lines ls declared (errors @ [multiple_declaration var])
              else semantic_lines ls (insert var declared) errors)
         | _ \<Rightarrow> Inl IndexError)
      else if CHR ''='' \<in> set line then
        (let (lhs0, rhs0) = split_first CHR ''='' line;
             lhs = strip lhs0;
             rhs = remove_char CHR '';'' (strip rhs0);
             errors1 = (if lhs \<notin> declared then errors @ [undeclared_variable lhs] else errors)
         in semantic_lines ls declared (check_rhs declared (find_identifiers rhs) errors1))
      else semantic_lines ls declared errors)"

definition semantic_analysis :: "string \<Rightarrow> error + string list" where
  "semantic_analysis code = semantic_lines (split_sep CHR 0x0A (strip code)) {} []"

section \<open>Lexical analysis\<close>

datatype kind = KEYWORD | NUMBER | ID | OP | SEMI | SKIP

function token_matches :: "string \<Rightarrow> (kind \<times> string) list" where
  \<comment> \<open>\<open>re.finditer(token_regex, code)\<close>, each match as \<open>(match.lastgroup, match.group())\<close>:
      at a position the alternatives are tried in the order of \<open>token_specification\<close> and
      the first that matches is taken; where none matches the scan moves on by one character\<close>
  "token_matches [] = []"
| "token_matches (c # cs) =
     (if startswith (c # cs) ''int'' then (KEYWORD, ''int'') # token_matches (drop 3 (c # cs))
      else if is_digit c
        then (NUMBER, c # takeWhile is_digit cs) # token_matches (dropWhile is_digit cs)
      else if is_letter c
        then (ID, c # takeWhile is_word cs) # token_matches (dropWhile is_word cs)
      else if is_op c then (OP, [c]) # token_matches cs
      else if c = CHR '';'' then (SEMI, [c]) # token_matches cs
      else if is_skip c
        then (SKIP, c # takeWhile is_skip cs) # token_matches (dropWhile is_skip cs)
      else token_matches cs)"
  by pat_completeness auto
termination
  by (relation "measure length") (auto simp: length_dropWhile_le less_Suc_eq_le)

declare token_matches.simps [simp del]

type_synonym symbol_table = "(string \<times> string) list"

fun tokenize_loop ::
  "(kind \<times> string) list \<Rightarrow> (kind \<times> string) list \<Rightarrow> symbol_table
     \<Rightarrow> (kind \<times> string) list \<times> symbol_table" where
  \<comment> \<open>the loop over the matches; the dictionary \<open>symbol_table\<close> is kept in insertion order\<close>
  "tokenize_loop [] tokens symbol_table = (tokens, symbol_table)"
| "tokenize_loop ((kind, val) # ms) tokens symbol_table =
     (let tokens1 = (if kind \<noteq> SKIP then tokens @ [(kind, val)] else tokens);
          symbol_table1 =
            (if kind = ID \<and> map_of symbol_table val = None
             then symbol_table @ [(val, ''int'')] else symbol_table)
      in tokenize_loop ms tokens1 symbol_table1)"

definition tokenize :: "string \<Rightarrow> (kind \<times> string) list \<times> symbol_table" where
  "tokenize code = tokenize_loop (token_matches code) [] []"

section \<open>Syntax analysis\<close>

fun syntax_lines :: "string list \<Rightarrow> (string \<times> string) list \<Rightarrow> (string \<times> string) list" where
  "syntax_lines [] result = result"
| "syntax_lines (l # ls) result =
     (let line = strip l in
      if startswith line ''int'' \<and> endswith line '';''
        then syntax_lines ls (result @ [(line, ''Valid Declaration'')])
      else if CHR ''='' \<in> set line \<and> endswith line '';''
        then syntax_lines ls (result @ [(line, ''Valid Assignment'')])
      else syntax_lines ls (result @ [(line, ''Syntax Error'')]))"

definition syntax_analysis :: "string \<Rightarrow> (string \<times> string) list" where
  "syntax_analysis code = syntax_lines (split_sep CHR 0x0A (strip code)) []"

text \<open>The classification of a line as the specification words it.\<close>

datatype classification = ValidDeclaration | ValidAssignment | SyntaxErrorVerdict

definition classify_spec :: "string \<Rightarrow> classification" where
  "classify_spec line =
     (if startswith line ''int'' \<and> endswith line '';'' then ValidDeclaration
      else if CHR ''='' \<in> set line \<and> endswith line '';'' then ValidAssignment
      else SyntaxErrorVerdict)"

fun verdict_text :: "classification \<Rightarrow> string" where
  "verdict_text ValidDeclaration = ''Valid Declaration''"
| "verdict_text ValidAssignment = ''Valid Assignment''"
| "verdict_text SyntaxErrorVerdict = ''Syntax Error''"

section \<open>Parser and parse tree\<close>

datatype node = Node (name: string) (children: "node list")

definition add_child :: "node \<Rightarrow> node \<Rightarrow> node" where
  \<comment> \<open>every caller passes a \<open>Node\<close>, so only the first branch of the method is taken\<close>
  "add_child n child = Node (name n) (children n @ [child])"

text \<open>The two module-level variables that \<open>build_parse_tree\<close> declares \<open>global\<close>.\<close>

record globals =
  tokens_list :: "string list"
  index :: nat

function findall_tokens :: "string \<Rightarrow> string list" where
  \<comment> \<open>\<open>re.findall(r'int|[a-zA-Z_][a-zA-Z0-9_]*|[0-9]+|[=+*/-]|;', code)\<close>\<close>
  "findall_tokens [] = []"
| "findall_tokens (c # cs) =
     (if startswith (c # cs) ''int'' then ''int'' # findall_tokens (drop 3 (c # cs))
      else if is_letter c
        then (c # takeWhile is_word cs) # findall_tokens (dropWhile is_word cs)
      else if is_digit c
        then (c # takeWhile is_digit cs) # findall_tokens (dropWhile is_digit cs)
      else if c \<in> set ''=+*/-'' then [c] # findall_tokens cs
      else if c = CHR '';'' then [c] # findall_tokens cs
      else findall_tokens cs)"
  by pat_completeness auto
termination
  by (relation "measure length") (auto simp: length_dropWhile_le less_Suc_eq_le)

declare findall_tokens.simps [simp del]

definition current :: "globals \<Rightarrow> error + string" where
  \<comment> \<open>\<open>tokens_list[index]\<close>\<close>
  "current g =
     (if index g < length (tokens_list g) then Inr (tokens_list g ! index g)
      else Inl IndexError)"

definition match :: "string \<Rightarrow> globals \<Rightarrow> (error + node) \<times> globals" where
  "match expected g =
     (if index g < length (tokens_list g) \<and> tokens_list g ! index g = expected
      then (Inr (Node expected []), g\<lparr>index := index g + 1\<rparr>)
      else (case current g of
              Inl e \<Rightarrow> (Inl e, g)
            | Inr found \<Rightarrow>
                (Inl (SyntaxError (''Expected '' @ quoted expected @ '', found '' @ quoted found)),
                 g)))"

definition parse_declaration :: "globals \<Rightarrow> (error + node) \<times> globals" where
  "parse_declaration g0 =
     (let node0 = Node ''Declaration'' [] in
      case match ''int'' g0 of
        (Inl e, g1) \<Rightarrow> (Inl e, g1)
      | (Inr c1, g1) \<Rightarrow>
          (let node1 = add_child node0 c1 in
           case current g1 of
             Inl e \<Rightarrow> (Inl e, g1)
           | Inr var \<Rightarrow>
               (let node2 = add_child node1 (Node var []);
                    g2 = g1\<lparr>index := index g1 + 1\<rparr>
                in case match '';'' g2 of
                     (Inl e, g3) \<Rightarrow> (Inl e, g3)
                   | (Inr c3, g3) \<Rightarrow> (Inr (add_child node2 c3), g3))))"

definition parse_assignment :: "globals \<Rightarrow> (error + node) \<times> globals" where
  "parse_assignment g0 =
     (let node0 = Node ''Assignment'' [] in
      case current g0 of
        Inl e \<Rightarrow> (Inl e, g0)
      | Inr lhs \<Rightarrow>
          (let node1 = add_child node0 (Node lhs []);
               g1 = g0\<lparr>index := index g0 + 1\<rparr>
           in case match ''='' g1 of
                (Inl e, g2) \<Rightarrow> (Inl e, g2)
              | (Inr c2, g2) \<Rightarrow>
                  (let node2 = add_child node1 c2 in
                   case current g2 of
                     Inl e \<Rightarrow> (Inl e, g2)
                   | Inr rhs \<Rightarrow>
                       (let node3 = add_child node2 (Node rhs []);
                            g3 = g2\<lparr>index := index g2 + 1\<rparr>
                        in if index g3 < length (tokens_list g3)
                              \<and> tokens_list g3 ! index g3 = ''+''
                           then
                             (case match ''+'' g3 of
                                (Inl e, g4) \<Rightarrow> (Inl e, g4)
                              | (Inr c4, g4) \<Rightarrow>
                                  (let node4 = add_child node3 c4 in
                                   case current g4 of
                                     Inl e \<Rightarrow> (Inl e, g4)
                                   | Inr rhs2 \<Rightarrow>
                                       (let node5 = add_child node4 (Node rhs2 []);
                                            g5 = g4\<lparr>index := index g4 + 1\<rparr>
                                        in case match '';'' g5 of
                                             (Inl e, g6) \<Rightarrow> (Inl e, g6)
                                           | (Inr c6, g6) \<Rightarrow> (Inr (add_child node5 c6), g6))))
                           else
                             (case match '';'' g3 of
                                (Inl e, g4) \<Rightarrow> (Inl e, g4)
                              | (Inr c4, g4) \<Rightarrow> (Inr (add_child node3 c4), g4))))))"

function parse_statements :: "node \<Rightarrow> globals \<Rightarrow> (error + node) \<times> globals" where
  \<comment> \<open>the \<open>while\<close> loop of \<open>parse_program\<close>\<close>
  "parse_statements node g =
     (if index g < length (tokens_list g) then
        (if tokens_list g ! index g = ''int'' then
           (case parse_declaration g of
              (Inl e, g') \<Rightarrow> (Inl e, g')
            | (Inr child, g') \<Rightarrow> parse_statements (add_child node child) g')
         else
           (case parse_assignment g of
              (Inl e, g') \<Rightarrow> (Inl e, g')
            | (Inr child, g') \<Rightarrow> parse_statements (add_child node child) g'))
      else (Inr node, g))"
  by pat_completeness auto
termination
proof (relation "measure (\<lambda>(node, g). length (tokens_list g) - index g)", goal_cases)
  case 1
  show ?case by simp
next
  case (2 node g res g' child)
  then have "parse_declaration g = (Inr child, g')" by simp
  then have "tokens_list g' = tokens_list g \<and> index g < index g'"
    by (auto simp: parse_declaration_def match_def current_def Let_def
          split: if_splits sum.splits prod.splits)
  with 2 show ?case by (simp add: diff_less_mono2)
next
  case (3 node g res g' child)
  then have "parse_assignment g = (Inr child, g')" by simp
  then have "tokens_list g' = tokens_list g \<and> index g < index g'"
    by (auto simp: parse_assignment_def match_def current_def Let_def
          split: if_splits sum.splits prod.splits)
  with 3 show ?case by (simp add: diff_less_mono2)
qed

declare parse_statements.simps [simp del]

definition parse_program :: "globals \<Rightarrow> (error + node) \<times> globals" where
  "parse_program g = parse_statements (Node ''Program'' []) g"

definition build_parse_tree :: "string \<Rightarrow> globals \<Rightarrow> (error + node) \<times> globals" where
  \<comment> \<open>the module-level variables before the call are \<open>g\<close>; both are assigned before the
      parse starts\<close>
  "build_parse_tree code g =
     parse_program (g\<lparr>tokens_list := findall_tokens code, index := 0\<rparr>)"

definition unmatched :: "char \<Rightarrow> bool" where
  \<comment> \<open>a character that none of the six patterns of \<open>token_specification\<close> can consume\<close>
  "unmatched c =
     (\<not> is_digit c \<and> \<not> is_letter c \<and> \<not> is_op c \<and> c \<noteq> CHR '';'' \<and> \<not> is_skip c)"

section \<open>Calls in the module state\<close>

text \<open>
  A call of one of the four functions when the module-level variables are \<open>g\<close>.
  \<open>tokenize\<close>, \<open>syntax_analysis\<close> and \<open>semantic_analysis\<close> have local variables only and
  leave \<open>g\<close> as it is; \<open>build_parse_tree\<close> leaves its token list and cursor behind.
\<close>

datatype phase = Tokenize | SyntaxAnalysis | SemanticAnalysis | BuildParseTree

datatype outcome =
    Tokens "(kind \<times> string) list \<times> symbol_table"
  | Verdicts "(string \<times> string) list"
  | Errors "error + string list"
  | Tree "error + node"

fun call :: "phase \<Rightarrow> string \<Rightarrow> globals \<Rightarrow> outcome \<times> globals" where
  "call Tokenize code g = (Tokens (tokenize code), g)"
| "call SyntaxAnalysis code g = (Verdicts (syntax_analysis code), g)"
| "call SemanticAnalysis code g = (Errors (semantic_analysis code), g)"
| "call BuildParseTree code g = (case build_parse_tree code g of (r, g') \<Rightarrow> (Tree r, g'))"

fun run_calls :: "(phase \<times> string) list \<Rightarrow> globals \<Rightarrow> globals" where
  "run_calls [] g = g"
| "run_calls ((f, code) # cs) g = run_calls cs (snd (call f code g))"

section \<open>Auxiliary facts\<close>

lemma build_parse_tree_assigns:
  "build_parse_tree code g = parse_program \<lparr>tokens_list = findall_tokens code, index = 0\<rparr>"
  by (cases g) (simp add: build_parse_tree_def)

lemma call_any_state: "fst (call f code g) = fst (call f code g')"
  by (cases f) (simp_all add: build_parse_tree_assigns split: prod.splits)

lemma syntax_lines_map:
  "syntax_lines ls result =
     result @ map (\<lambda>l. (strip l, verdict_text (classify_spec (strip l)))) ls"
  by (induction ls arbitrary: result) (simp_all add: classify_spec_def Let_def)

lemma fst_tokenize_loop:
  "fst (tokenize_loop ms tokens st) = tokens @ filter (\<lambda>m. fst m \<noteq> SKIP) ms"
  by (induction ms tokens st rule: tokenize_loop.induct) (simp_all add: Let_def)

lemma fst_tokenize: "fst (tokenize code) = filter (\<lambda>m. fst m \<noteq> SKIP) (token_matches code)"
  by (simp add: tokenize_def fst_tokenize_loop)

lemma startswith_prefix: "startswith s p = prefix p s"
  by (auto simp: startswith_def prefix_def) (metis append_take_drop_id)

lemma unmatched_not_int:
  "unmatched c \<Longrightarrow> c \<noteq> CHR ''i'' \<and> c \<noteq> CHR ''n'' \<and> c \<noteq> CHR ''t''"
  by (auto simp: unmatched_def is_letter_def)

lemma startswith_int_unmatched:
  assumes "unmatched c"
  shows "startswith (xs @ c # ys) ''int'' = startswith xs ''int''"
proof (cases xs)
  case Nil
  with assms show ?thesis by (auto simp: startswith_def dest: unmatched_not_int)
next
  case (Cons x1 xs1)
  note c1 = this
  show ?thesis
  proof (cases xs1)
    case Nil
    with c1 assms show ?thesis by (auto simp: startswith_def dest: unmatched_not_int)
  next
    case (Cons x2 xs2)
    note c2 = this
    show ?thesis
    proof (cases xs2)
      case Nil
      with c1 c2 assms show ?thesis by (auto simp: startswith_def dest: unmatched_not_int)
    next
      case (Cons x3 xs3)
      with c1 c2 show ?thesis by (simp add: startswith_def)
    qed
  qed
qed

lemma startswith_int_drop:
  "startswith (x # xs) ''int'' \<Longrightarrow> drop 2 (xs @ zs) = drop 2 xs @ zs"
  by (cases xs; cases "tl xs") (auto simp: startswith_def)

lemma semicolon_class:
  "\<not> is_digit CHR '';''" "\<not> is_letter CHR '';''" "\<not> is_op CHR '';''"
  "\<not> startswith (CHR '';'' # cs) ''int''"
  by (simp_all add: is_digit_def is_letter_def is_op_def startswith_def)

lemma token_matches_unmatched:
  assumes "unmatched c"
  shows "token_matches (s1 @ c # s2) = token_matches s1 @ token_matches s2"
proof (induction s1 rule: token_matches.induct)
  case 1
  have "\<not> startswith (c # s2) ''int''"
    using assms by (auto simp: startswith_def dest: unmatched_not_int)
  with assms show ?case
    by (simp add: token_matches.simps unmatched_def)
next
  case (2 a as)
  have sw: "startswith ((a # as) @ c # s2) ''int'' = startswith (a # as) ''int''"
    by (rule startswith_int_unmatched [OF assms])
  have nd: "\<not> is_digit c" and nw: "\<not> is_word c" and ns: "\<not> is_skip c"
    using assms by (auto simp: unmatched_def is_word_def)
  show ?case
  proof (cases "startswith (a # as) ''int''")
    case True
    with 2 sw startswith_int_drop [OF True, of "c # s2"] show ?thesis
      by (simp add: token_matches.simps)
  next
    case False
    with 2 sw nd nw ns show ?thesis
      by (simp add: token_matches.simps takeWhile_tail dropWhile_append3 semicolon_class)
  qed
qed

lemma startswith_takeWhile:
  assumes "startswith (c # takeWhile P cs) ''int''"
  shows "startswith (c # cs) ''int''"
proof -
  have "prefix (c # takeWhile P cs) (c # cs)"
    by (simp add: takeWhile_is_prefix)
  with assms show ?thesis
    unfolding startswith_prefix by (rule prefix_order.trans)
qed

lemma token_matches_ID:
  "(ID, v) \<in> set (token_matches s) \<Longrightarrow> \<not> startswith v ''int''"
proof (induction s rule: token_matches.induct)
  case 1
  then show ?case by (simp add: token_matches.simps)
next
  case (2 c cs)
  from "2.prems" "2.IH" show ?case
    by (auto simp: token_matches.simps(2) [of c cs] semicolon_class split: if_splits
          dest: startswith_takeWhile)
qed

lemma token_matches_int: "token_matches (''int'' @ s) = (KEYWORD, ''int'') # token_matches s"
  by (simp add: token_matches.simps startswith_def)

section \<open>The claims\<close>

text \<open>
  C1. For the three lines \<open>int a;\<close>, \<open>int a;\<close>, \<open>a = b;\<close> the semantic analysis returns
  exactly two messages, in this order: the multiple declaration of \<open>a\<close>, then the undeclared
  variable \<open>b\<close>.
\<close>

theorem semantic_analysis_duplicate_then_undeclared:
  "semantic_analysis ''int a;\<newline>int a;\<newline>a = b;\<newline>''
     = Inr [multiple_declaration ''a'', undeclared_variable ''b'']"
  by code_simp

text \<open>
  C2. For the two lines \<open>int a;\<close>, \<open>a = 5;\<close> the parser returns a \<open>Program\<close> node with two
  children in source order: a \<open>Declaration\<close> with the leaves \<open>int\<close>, \<open>a\<close>, \<open>;\<close> and an
  \<open>Assignment\<close> with the leaves \<open>a\<close>, \<open>=\<close>, \<open>5\<close>, \<open>;\<close> and no \<open>+\<close> part, whatever the
  module state was before the call.
\<close>

theorem build_parse_tree_declaration_assignment:
  "fst (build_parse_tree ''int a;\<newline>a = 5;\<newline>'' g)
     = Inr (Node ''Program''
         [Node ''Declaration'' [Node ''int'' [], Node ''a'' [], Node '';'' []],
          Node ''Assignment'' [Node ''a'' [], Node ''='' [], Node ''5'' [], Node '';'' []]])"
  unfolding build_parse_tree_assigns by code_simp

text \<open>
  C3. The loop of \<open>syntax_analysis\<close> gives every line of the stripped input, once stripped
  itself, the verdict of the specification's priority rule (\<open>classify_spec\<close>), in source
  order; and the three lines \<open>int a;\<close>, \<open>a = 5;\<close>, \<open>b\<close> get the verdicts valid declaration,
  valid assignment, syntax error.
\<close>

theorem syntax_analysis_classifies:
  "syntax_analysis code
     = map (\<lambda>l. (strip l, verdict_text (classify_spec (strip l))))
         (split_sep CHR 0x0A (strip code))
   \<and> syntax_analysis ''int a;\<newline>a = 5;\<newline>b\<newline>''
     = [(''int a;'', verdict_text ValidDeclaration),
        (''a = 5;'', verdict_text ValidAssignment),
        (''b'', verdict_text SyntaxErrorVerdict)]"
proof
  show "syntax_analysis code
     = map (\<lambda>l. (strip l, verdict_text (classify_spec (strip l))))
         (split_sep CHR 0x0A (strip code))"
    by (simp add: syntax_analysis_def syntax_lines_map)
  show "syntax_analysis ''int a;\<newline>a = 5;\<newline>b\<newline>''
     = [(''int a;'', verdict_text ValidDeclaration),
        (''a = 5;'', verdict_text ValidAssignment),
        (''b'', verdict_text SyntaxErrorVerdict)]"
    by code_simp
qed

text \<open>
  C4 (as amended). Parsing \<open>a = ;\<close> fails: no tree is returned. The \<open>;\<close> is taken as the
  term of the assignment without a check of its class, so all three tokens are consumed
  before the failure, which arises when the closing \<open>;\<close> is looked for.
\<close>

theorem build_parse_tree_missing_term_fails:
  "isl (fst (build_parse_tree ''a = ;'' g))
   \<and> index (snd (build_parse_tree ''a = ;'' g)) = 3"
  unfolding build_parse_tree_assigns by code_simp

text \<open>
  C4 as stated fails: the failure of the parse of \<open>a = ;\<close> is not a syntax error that
  names an expected and a found token; it is the index error of the read past the last
  token.
\<close>

theorem build_parse_tree_missing_term_counterexample:
  "fst (build_parse_tree ''a = ;'' \<lparr>tokens_list = [], index = 0\<rparr>) = Inl IndexError"
  unfolding build_parse_tree_assigns by code_simp

text \<open>
  C5. The claim that the semantic analysis returns an error list for every input fails on
  the code: on a line that is the bare keyword, \<open>int\<close> or \<open>int;\<close>, the second field of the
  line does not exist and the analysis ends with an index error.
\<close>

theorem semantic_analysis_bare_keyword:
  "semantic_analysis ''int'' = Inl IndexError \<and> semantic_analysis ''int;'' = Inl IndexError"
  by code_simp

text \<open>
  C6 (as amended). At each scan position the lexer takes the first rule, in the fixed
  order, that matches there (keyword before identifier), not the longest match. So a text
  that begins with \<open>int\<close> lexes as the keyword \<open>int\<close> followed by the tokens of the rest,
  and no identifier token is, or begins with, \<open>int\<close>.
\<close>

theorem tokenize_keyword_first:
  "fst (tokenize (''int'' @ s)) = (KEYWORD, ''int'') # fst (tokenize s)
   \<and> ((ID, v) \<in> set (fst (tokenize code)) \<longrightarrow> \<not> startswith v ''int'')"
proof
  show "fst (tokenize (''int'' @ s)) = (KEYWORD, ''int'') # fst (tokenize s)"
    unfolding fst_tokenize token_matches_int by simp
  show "(ID, v) \<in> set (fst (tokenize code)) \<longrightarrow> \<not> startswith v ''int''"
    unfolding fst_tokenize by (auto dest: token_matches_ID)
qed

text \<open>
  Witness for C6 at the text \<open>integer\<close>: its identifier token \<open>eger\<close> does not begin with
  \<open>int\<close>.
\<close>

theorem tokenize_keyword_first_witness:
  "fst (tokenize ''integer'') = (KEYWORD, ''int'') # fst (tokenize ''eger'')
   \<and> (ID, ''eger'') \<in> set (fst (tokenize ''integer''))
   \<and> \<not> startswith ''eger'' ''int''"
proof -
  have h: "(ID, ''eger'') \<in> set (fst (tokenize ''integer''))"
    by code_simp
  from tokenize_keyword_first [of "''eger''" "''eger''" "''integer''"] h
  show ?thesis by simp
qed

text \<open>
  C6 as stated fails: \<open>integer\<close> does not lex as one identifier token, but as the keyword
  \<open>int\<close> followed by the identifier \<open>eger\<close>.
\<close>

theorem tokenize_integer_counterexample:
  "fst (tokenize ''integer'') = [(KEYWORD, ''int''), (ID, ''eger'')]"
  by code_simp

text \<open>
  C7 (as amended). A character that none of the lexical rules matches makes the lexer
  neither fail nor emit a token: the token list of a text that contains such a character
  is the token list of the text before it followed by the token list of the text after it.
\<close>

theorem tokenize_drops_unmatched:
  "unmatched c \<Longrightarrow> fst (tokenize (s1 @ c # s2)) = fst (tokenize s1) @ fst (tokenize s2)"
  by (simp add: fst_tokenize token_matches_unmatched)

text \<open>Witness for C7 at the text \<open>a$b\<close>.\<close>

theorem tokenize_drops_unmatched_witness:
  "unmatched CHR ''$''
   \<and> fst (tokenize (''a'' @ CHR ''$'' # ''b'')) = fst (tokenize ''a'') @ fst (tokenize ''b'')"
proof -
  have h: "unmatched CHR ''$''"
    by (simp add: unmatched_def is_digit_def is_letter_def is_op_def is_skip_def)
  from h tokenize_drops_unmatched [OF h, of "''a''" "''b''"] show ?thesis by simp
qed

text \<open>
  C7 as stated fails: the text \<open>a$b\<close> contains a character that no rule matches, and the
  lexer returns a token list and a symbol table for it.
\<close>

theorem tokenize_unmatched_counterexample:
  "unmatched CHR ''$''
   \<and> tokenize ''a$b'' = ([(ID, ''a''), (ID, ''b'')], [(''a'', ''int''), (''b'', ''int'')])"
  by code_simp

text \<open>
  C8 (as amended). On the empty input \<open>tokenize\<close> returns no token and an empty symbol
  table, the syntax analysis returns one verdict, a syntax error for the empty line, the
  semantic analysis returns no error, and the parser returns a \<open>Program\<close> node without
  children.
\<close>

theorem empty_input:
  "tokenize [] = ([], [])
   \<and> syntax_analysis [] = [([], ''Syntax Error'')]
   \<and> semantic_analysis [] = Inr []
   \<and> fst (build_parse_tree [] g) = Inr (Node ''Program'' [])"
  unfolding build_parse_tree_assigns by code_simp

text \<open>C8 as stated fails: the verdict list of the empty input is not empty.\<close>

theorem empty_input_counterexample: "syntax_analysis [] \<noteq> []"
  by code_simp

text \<open>
  C9. None of the four functions carries state from one call to the next: a second call
  on the same input, in the module state the first call left behind, returns what the
  first call returned; and so does a call after any sequence of other calls.
\<close>

theorem call_twice_same_outcome:
  "fst (call f code (snd (call f code g))) = fst (call f code g)
   \<and> fst (call f code (run_calls cs g)) = fst (call f code g)"
  using call_any_state [of f code "snd (call f code g)" g]
    call_any_state [of f code "run_calls cs g" g]
  by simp

text \<open>
  C10. The parser takes the token at the position of the identifier of a declaration,
  and at the position of the term of an assignment, as a leaf whatever it is. So the
  texts \<open>int ; ;\<close> and \<open>a = = ;\<close>, which the grammar excludes, get a complete tree.
\<close>

theorem parser_accepts_any_token_as_leaf:
  "fst (parse_program \<lparr>tokens_list = [''int'', t, '';''], index = 0\<rparr>)
     = Inr (Node ''Program''
         [Node ''Declaration'' [Node ''int'' [], Node t [], Node '';'' []]])
   \<and> fst (parse_program \<lparr>tokens_list = [''a'', ''='', t, '';''], index = 0\<rparr>)
     = Inr (Node ''Program''
         [Node ''Assignment'' [Node ''a'' [], Node ''='' [], Node t [], Node '';'' []]])
   \<and> fst (build_parse_tree ''int ; ;'' g)
     = Inr (Node ''Program''
         [Node ''Declaration'' [Node ''int'' [], Node '';'' [], Node '';'' []]])
   \<and> fst (build_parse_tree ''a = = ;'' g)
     = Inr (Node ''Program''
         [Node ''Assignment'' [Node ''a'' [], Node ''='' [], Node ''='' [], Node '';'' []]])"
proof (intro conjI)
  show "fst (parse_program \<lparr>tokens_list = [''int'', t, '';''], index = 0\<rparr>)
     = Inr (Node ''Program''
         [Node ''Declaration'' [Node ''int'' [], Node t [], Node '';'' []]])"
    by (simp add: parse_program_def parse_statements.simps parse_declaration_def
          match_def current_def add_child_def)
  show "fst (parse_program \<lparr>tokens_list = [''a'', ''='', t, '';''], index = 0\<rparr>)
     = Inr (Node ''Program''
         [Node ''Assignment'' [Node ''a'' [], Node ''='' [], Node t [], Node '';'' []]])"
    by (simp add: parse_program_def parse_statements.simps parse_assignment_def
          match_def current_def add_child_def)
  show "fst (build_parse_tree ''int ; ;'' g)
     = Inr (Node ''Program''
         [Node ''Declaration'' [Node ''int'' [], Node '';'' [], Node '';'' []]])"
    unfolding build_parse_tree_assigns by code_simp
  show "fst (build_parse_tree ''a = = ;'' g)
     = Inr (Node ''Program''
         [Node ''Assignment'' [Node ''a'' [], Node ''='' [], Node ''='' [], Node '';'' []]])"
    unfolding build_parse_tree_assigns by code_simp
qed

end
